theory Spec2Isabelle
  imports Complex_Main "HOL-Library.Multiset"
begin

section \<open>Exceptions, log records and observable effects\<close>

text \<open>
  The Python sources raise and catch exceptions and write to a logger. An exception is a
  value carrying its message (what \<^verbatim>\<open>str(e)\<close> yields); every function that
  can raise returns \<open>exn + 'a\<close>. The log records a function writes and the files it
  opens are returned as a list of effects, in the order in which they happen.
\<close>

datatype exn =
    ValueError string
  | OSError string
  | NotInitialized string
  | OtherException string

fun str_exn :: "exn \<Rightarrow> string" where
  "str_exn (ValueError m) = m"
| "str_exn (OSError m) = m"
| "str_exn (NotInitialized m) = m"
| "str_exn (OtherException m) = m"

datatype effect = Log_info string | Log_warning string | Log_error string | Open_file string

fun is_open :: "effect \<Rightarrow> bool" where
  "is_open (Open_file _) = True"
| "is_open _ = False"

fun is_warning :: "effect \<Rightarrow> bool" where
  "is_warning (Log_warning _) = True"
| "is_warning _ = False"

section \<open>Python string helpers\<close>

text \<open>
  A text is a list of characters with code points below 256. \<^verbatim>\<open>str.isspace\<close>
  holds on that range for the code points 9 to 13, 28 to 32, 133 and 160, and
  \<^verbatim>\<open>str.strip()\<close> removes such characters from both ends.
\<close>

definition isspace :: "char \<Rightarrow> bool" where
  "isspace c \<longleftrightarrow> (of_char c :: nat) \<in> set [9, 10, 11, 12, 13, 28, 29, 30, 31, 32, 133, 160]"

definition strip :: "string \<Rightarrow> string" where
  "strip s = rev (dropWhile isspace (rev (dropWhile isspace s)))"

definition endswith :: "string \<Rightarrow> string \<Rightarrow> bool" where
  "endswith s suf \<longleftrightarrow> length suf \<le> length s \<and> drop (length s - length suf) s = suf"

text \<open>\<^verbatim>\<open>os.path.join\<close> of a directory and one name, on a POSIX system.\<close>

definition os_path_join :: "string \<Rightarrow> string \<Rightarrow> string" where
  "os_path_join a b =
     (if b \<noteq> [] \<and> hd b = CHR ''/'' then b
      else if a = [] \<or> last a = CHR ''/'' then a @ b
      else a @ ''/'' @ b)"

text \<open>\<^verbatim>\<open>str(n)\<close> for a natural number: its decimal digits.\<close>

fun str_nat :: "nat \<Rightarrow> string" where
  "str_nat n =
     (if n < 10 then [char_of (48 + n)]
      else str_nat (n div 10) @ [char_of (48 + n mod 10)])"

declare str_nat.simps [simp del]

section \<open>Documents and the directory being read\<close>

text \<open>
  \<^verbatim>\<open>Document(page_content=text, metadata={"source": filename})\<close>: the only
  metadata key the program ever sets is the source.
\<close>

record document =
  page_content :: string
  source :: string

text \<open>
  What the program sees of the file system: the path may be missing, listing it may fail
  (the path names a regular file, say), or it lists entries; opening and reading an entry
  as UTF-8 text yields its text or raises.
\<close>

datatype read_result = Read_text string | Read_raises exn

type_synonym dir_entry = "string \<times> read_result"

datatype path_state = No_such_path | Listdir_raises string | Listdir "dir_entry list"

section \<open>DocumentProcessor\<close>

text \<open>
  The configuration handed to the text splitter in \<^verbatim>\<open>DocumentProcessor.__init__\<close>.
  The splitter itself belongs to a library outside the repository; its
  \<^verbatim>\<open>split_documents\<close> is a parameter of the model, and it may raise.
\<close>

definition chunk_size :: nat where
  "chunk_size = 1000"

definition chunk_overlap :: nat where
  "chunk_overlap = 200"

definition newline :: string where
  "newline = [CHR 0x0A]"

definition separators :: "string list" where
  "separators = [newline @ newline, newline, ''.'', ''!'', ''?'', '','', '' '']"

type_synonym splitter = "document list \<Rightarrow> exn + document list"

definition no_valid_documents_msg :: string where
  "no_valid_documents_msg = ''No valid documents found or all documents were empty''"

text \<open>
  The body of the loop over \<^verbatim>\<open>os.listdir\<close>: one directory entry, the documents
  collected so far and the effects so far. An exception raised while the file is opened,
  read or split is logged and the loop goes on with the next entry.
\<close>

definition process_file ::
  "splitter \<Rightarrow> string \<Rightarrow> document list \<times> effect list \<Rightarrow> dir_entry \<Rightarrow> document list \<times> effect list"
where
  "process_file split_documents directory_path acc entry =
     (let documents = fst acc; trace = snd acc;
          filename = fst entry; outcome = snd entry
      in if \<not> endswith filename ''.txt'' then (documents, trace)
         else
           let file_path = os_path_join directory_path filename;
               trace1 = trace @ [Log_info (''Processing file: '' @ file_path), Open_file file_path];
               failed = (\<lambda>e. (documents,
                  trace1 @ [Log_error (''Error processing file '' @ file_path @ '': '' @ str_exn e)]))
           in case outcome of
                Read_raises e \<Rightarrow> failed e
              | Read_text text \<Rightarrow>
                  if strip text \<noteq> [] then
                    (case split_documents [\<lparr>page_content = text, source = filename\<rparr>] of
                       Inl e \<Rightarrow> failed e
                     | Inr split_docs \<Rightarrow>
                         (documents @ split_docs,
                          trace1 @ [Log_info (''Successfully processed '' @ filename)]))
                  else (documents, trace1 @ [Log_warning (''Empty file: '' @ file_path)]))"

definition load_files ::
  "splitter \<Rightarrow> string \<Rightarrow> dir_entry list \<Rightarrow> document list \<times> effect list"
where
  "load_files split_documents directory_path entries =
     foldl (process_file split_documents directory_path) ([], []) entries"

text \<open>The outer handler logs the exception and raises it again.\<close>

definition load_failed :: "exn \<Rightarrow> effect list \<Rightarrow> (exn + document list) \<times> effect list" where
  "load_failed e trace =
     (Inl e, trace @ [Log_error (''Error in load_and_split_documents: '' @ str_exn e)])"

definition load_and_split_documents ::
  "splitter \<Rightarrow> string \<Rightarrow> path_state \<Rightarrow> (exn + document list) \<times> effect list"
where
  "load_and_split_documents split_documents directory_path fs =
     (case fs of
        No_such_path \<Rightarrow>
          load_failed (ValueError (''Directory not found: '' @ directory_path)) []
      | Listdir_raises m \<Rightarrow> load_failed (OSError m) []
      | Listdir entries \<Rightarrow>
          let loaded = load_files split_documents directory_path entries;
              documents = fst loaded; trace = snd loaded
          in if documents = [] then load_failed (ValueError no_valid_documents_msg) trace
             else (Inr documents,
                   trace @ [Log_info (''Successfully processed '' @ str_nat (length documents)
                                      @ '' document chunks'')]))"

text \<open>What one directory entry adds to the list of documents.\<close>

definition file_chunks :: "splitter \<Rightarrow> dir_entry \<Rightarrow> document list" where
  "file_chunks split_documents entry =
     (if \<not> endswith (fst entry) ''.txt'' then []
      else case snd entry of
             Read_raises e \<Rightarrow> []
           | Read_text text \<Rightarrow>
               if strip text \<noteq> [] then
                 (case split_documents [\<lparr>page_content = text, source = fst entry\<rparr>] of
                    Inl e \<Rightarrow> [] | Inr split_docs \<Rightarrow> split_docs)
               else [])"

text \<open>An entry that yields no text: not a text file by name, unreadable, or blank.\<close>

definition yields_no_text :: "dir_entry \<Rightarrow> bool" where
  "yields_no_text entry =
     (\<not> endswith (fst entry) ''.txt'' \<or>
      (case snd entry of Read_raises e \<Rightarrow> True | Read_text text \<Rightarrow> strip text = []))"

section \<open>EmbeddingsManager\<close>

text \<open>
  \<^verbatim>\<open>EmbeddingsManager.__init__\<close> keeps the persistence directory and builds the
  embedding model, cached under \<^verbatim>\<open>models\<close> in that directory. The model
  constructor belongs to a library outside the repository: it is a parameter, given the
  model name and the cache folder, and it may raise.
\<close>

record 'emb embeddings_manager =
  persist_directory :: string
  embeddings :: 'emb

definition EmbeddingsManager ::
  "(string \<Rightarrow> string \<Rightarrow> exn + 'emb) \<Rightarrow> string \<Rightarrow> exn + 'emb embeddings_manager"
where
  "EmbeddingsManager SentenceTransformerEmbeddings directory =
     (case SentenceTransformerEmbeddings ''all-MiniLM-L6-v2'' (os_path_join directory ''models'') of
        Inl e \<Rightarrow> Inl e
      | Inr model \<Rightarrow> Inr \<lparr>persist_directory = directory, embeddings = model\<rparr>)"

text \<open>
  \<^verbatim>\<open>create_vector_store\<close>: the store builder \<^verbatim>\<open>Chroma.from_documents\<close> is a
  parameter, called with the documents, the embedding model and the persistence
  directory. Whatever it raises is logged and raised again.
\<close>

definition no_documents_msg :: string where
  "no_documents_msg = ''No documents provided''"

definition create_vector_store ::
  "(document list \<Rightarrow> 'emb \<Rightarrow> string \<Rightarrow> exn + 'vs) \<Rightarrow> 'emb embeddings_manager \<Rightarrow> document list
     \<Rightarrow> (exn + 'vs) \<times> effect list"
where
  "create_vector_store from_documents self documents =
     (let trace = [Log_info ''Creating vector store...''];
          failed = (\<lambda>e. (Inl e, trace @ [Log_error (''Error creating vector store: '' @ str_exn e)]))
      in if documents = [] then failed (ValueError no_documents_msg)
         else case from_documents documents (embeddings self) (persist_directory self) of
                Inl e \<Rightarrow> failed e
              | Inr vector_store \<Rightarrow>
                  (Inr vector_store, trace @ [Log_info ''Vector store created successfully'']))"

section \<open>The vector store\<close>

text \<open>
  An embedding model maps a text to a vector, or raises. The store keeps each chunk with
  its vector, in insertion order, together with the embedding model it was built with and
  the directory it is persisted in.
\<close>

type_synonym 'v embedder = "string \<Rightarrow> exn + 'v"

record 'v chroma =
  persisted_at :: string
  embedding_function :: "'v embedder"
  records :: "(document \<times> 'v) list"

text \<open>
  Modelled from the spec: the embedding step of \<^verbatim>\<open>Chroma.from_documents\<close>, a library
  call outside the repository. Section 4.2: the builder "computes one embedding vector per
  chunk"; section 7 lists a failed embedding call among the errors, so the first chunk
  whose embedding raises ends the step with that exception.
\<close>

fun embed_documents :: "'v embedder \<Rightarrow> document list \<Rightarrow> exn + (document \<times> 'v) list" where
  "embed_documents emb [] = Inr []"
| "embed_documents emb (d # ds) =
     (case emb (page_content d) of
        Inl e \<Rightarrow> Inl e
      | Inr v \<Rightarrow>
          (case embed_documents emb ds of
             Inl e \<Rightarrow> Inl e
           | Inr rest \<Rightarrow> Inr ((d, v) # rest)))"

text \<open>
  Modelled from the spec: \<^verbatim>\<open>Chroma.from_documents\<close>, a library call outside the
  repository. Section 4.2: it "inserts all (chunk, vector) pairs into a vector store rooted
  at a configured persistence directory" and "returns a handle to the populated store";
  section 9: every batch builds the store from scratch.
\<close>

definition Chroma_from_documents ::
  "document list \<Rightarrow> 'v embedder \<Rightarrow> string \<Rightarrow> exn + 'v chroma"
where
  "Chroma_from_documents documents embedding directory =
     (case embed_documents embedding documents of
        Inl e \<Rightarrow> Inl e
      | Inr pairs \<Rightarrow>
          Inr \<lparr>persisted_at = directory, embedding_function = embedding, records = pairs\<rparr>)"

text \<open>
  Modelled from the spec: ranking for the nearest-neighbour query of the store handle, which
  is missing from the sources. Section 4.2: the query yields an "ordered sequence of (Chunk,
  similarity score), most-similar first". Scores live in any linear order; chunks with equal
  scores keep their insertion order.
\<close>

fun insert_hit :: "'a \<times> 's::linorder \<Rightarrow> ('a \<times> 's) list \<Rightarrow> ('a \<times> 's) list" where
  "insert_hit h [] = [h]"
| "insert_hit h (g # gs) = (if snd g \<le> snd h then h # g # gs else g # insert_hit h gs)"

fun rank :: "('a \<times> 's::linorder) list \<Rightarrow> ('a \<times> 's) list" where
  "rank [] = []"
| "rank (h # hs) = insert_hit h (rank hs)"

text \<open>
  Modelled from the spec: the capability \<^verbatim>\<open>query(vector, k)\<close> of section 9, "returning
  the k stored items most similar to a query vector" (glossary), for a similarity measure
  \<open>sim\<close> between vectors.
\<close>

definition query_vector ::
  "('v \<Rightarrow> 'v \<Rightarrow> 's::linorder) \<Rightarrow> 'v chroma \<Rightarrow> 'v \<Rightarrow> nat \<Rightarrow> (document \<times> 's) list"
where
  "query_vector sim store q k = take k (rank (map (\<lambda>(d, v). (d, sim q v)) (records store)))"

text \<open>
  Modelled from the spec: \<^verbatim>\<open>query(text, k)\<close> of the store handle, missing from the
  sources. Section 4.3: the question is embedded "with the same embedding model used at
  index time", then the store is queried for the top k chunks. The store is returned with
  the result: a query does not insert.
\<close>

definition query ::
  "('v \<Rightarrow> 'v \<Rightarrow> 's::linorder) \<Rightarrow> 'v chroma \<Rightarrow> string \<Rightarrow> nat
     \<Rightarrow> (exn + (document \<times> 's) list) \<times> 'v chroma"
where
  "query sim store text k =
     (case embedding_function store text of
        Inl e \<Rightarrow> (Inl e, store)
      | Inr q \<Rightarrow> (Inr (query_vector sim store q k), store))"

section \<open>The query engine\<close>

text \<open>
  Modelled from the spec: the state of \<^verbatim>\<open>RAGEngine\<close>, whose module
  \<^verbatim>\<open>pysrc/rag_engine.py\<close> is missing from the sources. Section 3: the settings are a
  temperature in [0, 1] and a context length in [1, 5]; section 4.3 lets the store be unset.
  The temperature is only handed on to the language model, never computed with.
\<close>

record 'v engine =
  vector_store :: "'v chroma option"
  temperature :: rat
  context_length :: nat

text \<open>
  Modelled from the spec: the constructor \<^verbatim>\<open>RAGEngine(vector_store)\<close>, missing from the
  sources. Section 6: the default temperature is 0.7, the default context length 3.
\<close>

definition RAGEngine :: "'v chroma \<Rightarrow> 'v engine" where
  "RAGEngine store = \<lparr>vector_store = Some store, temperature = 7 / 10, context_length = 3\<rparr>"

text \<open>
  Modelled from the spec: \<^verbatim>\<open>RAGEngine.update_settings\<close>, missing from the sources.
  Section 4.3: the settings "take effect on the next query only; they do not trigger
  re-embedding or re-indexing".
\<close>

definition update_settings :: "'v engine \<Rightarrow> rat \<Rightarrow> nat \<Rightarrow> 'v engine" where
  "update_settings self t k = self\<lparr>temperature := t, context_length := k\<rparr>"

text \<open>
  What the engine needs from outside: the similarity measure of the store, the prompt built
  from the retrieved chunks and the question, and the language model, called with a
  temperature and a prompt.
\<close>

record ('v, 's) generation =
  similarity :: "'v \<Rightarrow> 'v \<Rightarrow> 's"
  make_prompt :: "document list \<Rightarrow> string \<Rightarrow> string"
  language_model :: "rat \<Rightarrow> string \<Rightarrow> exn + string"

definition not_initialized_msg :: string where
  "not_initialized_msg = ''Vector store not initialized''"

text \<open>
  Modelled from the spec: \<^verbatim>\<open>RAGEngine.answer_question\<close>, missing from the sources.
  Section 4.3: it retrieves the top \<open>context_length\<close> chunks for the question, builds a
  prompt from them and the question, sends it to the language model with the configured
  temperature and returns the response verbatim; it fails with a NotInitialized error
  "if the store is empty or unset", and an error of the language model call is surfaced
  to the caller.
\<close>

definition answer_question ::
  "('v, 's::linorder) generation \<Rightarrow> 'v engine \<Rightarrow> string \<Rightarrow> exn + string"
where
  "answer_question gen self question =
     (case vector_store self of
        None \<Rightarrow> Inl (NotInitialized not_initialized_msg)
      | Some store \<Rightarrow>
          if records store = [] then Inl (NotInitialized not_initialized_msg)
          else (case fst (query (similarity gen) store question (context_length self)) of
                  Inl e \<Rightarrow> Inl e
                | Inr hits \<Rightarrow>
                    language_model gen (temperature self)
                      (make_prompt gen (map fst hits) question)))"

section \<open>The Streamlit shell\<close>

text \<open>
  \<^verbatim>\<open>st.session_state\<close> holds the engine (or \<^verbatim>\<open>None\<close>), the chat history and the
  document statistics. Each handler takes the session state and returns the new one with
  the elements it shows on the page.
\<close>

record chat_turn =
  role :: string
  content :: string

record stats =
  processed :: nat
  chunks :: nat

record 'v session_state =
  rag_engine :: "'v engine option"
  chat_history :: "chat_turn list"
  doc_stats :: stats

definition initial_session :: "'v session_state" where
  "initial_session = \<lparr>rag_engine = None, chat_history = [],
                       doc_stats = \<lparr>processed = 0, chunks = 0\<rparr>\<rparr>"

datatype ui =
    Chat_message string string
  | St_error string
  | St_warning string
  | St_success string
  | St_balloons
  | Status_update string string
  | St_rerun

text \<open>
  An uploaded file: its name and its bytes. The environment of \<^verbatim>\<open>process_files\<close>:
  the temporary directory, what reading saved bytes back as UTF-8 text yields, the text
  splitter and the constructor of the embedding model.
\<close>

record uploaded_file =
  name :: string
  getvalue :: string

record 'v environment =
  mkdtemp :: string
  read_utf8 :: "string \<Rightarrow> read_result"
  text_splitter :: splitter
  sentence_transformer :: "string \<Rightarrow> string \<Rightarrow> exn + 'v embedder"

text \<open>
  Saving the uploads: each file is written under its name, a later file replacing an
  earlier one of the same name. The listing is taken in the order of first writing.
\<close>

fun write_file :: "string \<Rightarrow> 'a \<Rightarrow> (string \<times> 'a) list \<Rightarrow> (string \<times> 'a) list" where
  "write_file n v [] = [(n, v)]"
| "write_file n v (p # ps) = (if fst p = n then (n, v) # ps else p # write_file n v ps)"

definition save_uploads :: "(string \<Rightarrow> read_result) \<Rightarrow> uploaded_file list \<Rightarrow> dir_entry list" where
  "save_uploads rd files = foldl (\<lambda>dir f. write_file (name f) (rd (getvalue f)) dir) [] files"

definition process_files ::
  "'v environment \<Rightarrow> uploaded_file list \<Rightarrow> 'v session_state
     \<Rightarrow> (exn + 'v session_state) \<times> effect list"
where
  "process_files env files st =
     (let data_path = os_path_join (mkdtemp env) ''data'';
          fs = Listdir (save_uploads (read_utf8 env) files);
          failed = (\<lambda>e trace. (Inl e, trace @ [Log_error (''Error processing files: '' @ str_exn e)]))
      in case EmbeddingsManager (sentence_transformer env) ''database'' of
           Inl e \<Rightarrow> failed e []
         | Inr embeddings_manager \<Rightarrow>
             (let loaded = load_and_split_documents (text_splitter env) data_path fs
              in (case fst loaded of
                    Inl e \<Rightarrow> failed e (snd loaded)
                  | Inr documents \<Rightarrow>
                      (let built = create_vector_store Chroma_from_documents
                                     embeddings_manager documents
                       in (case fst built of
                             Inl e \<Rightarrow> failed e (snd loaded @ snd built)
                           | Inr store \<Rightarrow>
                               (Inr (st\<lparr>rag_engine := Some (RAGEngine store),
                                        doc_stats := \<lparr>processed = length files,
                                                      chunks = length documents\<rparr>\<rparr>),
                                snd loaded @ snd built))))))"

text \<open>The button "Process Documents", shown once files are selected.\<close>

definition process_documents_handler ::
  "'v environment \<Rightarrow> uploaded_file list \<Rightarrow> 'v session_state \<Rightarrow> 'v session_state \<times> ui list"
where
  "process_documents_handler env uploaded_files st =
     (if uploaded_files = [] then (st, [])
      else case fst (process_files env uploaded_files st) of
             Inr st' \<Rightarrow>
               (st', [Status_update ''Processing complete!'' ''complete'',
                      St_success ''Documents processed successfully!'', St_balloons])
           | Inl e \<Rightarrow>
               (st, [Status_update ''Error occurred!'' ''error'',
                     St_error (''Error processing documents: '' @ str_exn e)]))"

text \<open>
  The chat input. The question is shown and appended to the history first; the block of the
  assistant then asks the engine, and shows and appends the response, or shows the error.
\<close>

definition assistant_reply ::
  "('v, 's::linorder) generation \<Rightarrow> 'v engine \<Rightarrow> string \<Rightarrow> 'v session_state
     \<Rightarrow> 'v session_state \<times> ui list"
where
  "assistant_reply gen eng prompt st =
     (case answer_question gen eng prompt of
        Inr response \<Rightarrow>
          (st\<lparr>chat_history := chat_history st @ [\<lparr>role = ''assistant'', content = response\<rparr>]\<rparr>,
           [Chat_message ''assistant'' response])
      | Inl e \<Rightarrow> (st, [St_error (''Error: '' @ str_exn e)]))"

definition chat_input_handler ::
  "('v, 's::linorder) generation \<Rightarrow> string option \<Rightarrow> 'v session_state
     \<Rightarrow> 'v session_state \<times> ui list"
where
  "chat_input_handler gen chat_input st =
     (case chat_input of
        None \<Rightarrow> (st, [])
      | Some prompt \<Rightarrow>
          if prompt = [] then (st, [])
          else (case rag_engine st of
                  None \<Rightarrow> (st, [St_warning ''Please upload documents first''])
                | Some eng \<Rightarrow>
                    (let st1 = st\<lparr>chat_history :=
                                    chat_history st @ [\<lparr>role = ''user'', content = prompt\<rparr>]\<rparr>;
                         replied = assistant_reply gen eng prompt st1
                     in (fst replied, Chat_message ''user'' prompt # snd replied))))"

text \<open>The buttons "Save Settings" and "Clear Chat History".\<close>

definition save_settings_handler ::
  "rat \<Rightarrow> nat \<Rightarrow> 'v session_state \<Rightarrow> 'v session_state \<times> ui list"
where
  "save_settings_handler t k st =
     (case rag_engine st of
        None \<Rightarrow> (st, [])
      | Some eng \<Rightarrow>
          (st\<lparr>rag_engine := Some (update_settings eng t k)\<rparr>, [St_success ''Settings updated!'']))"

definition clear_chat_history_handler :: "'v session_state \<Rightarrow> 'v session_state \<times> ui list" where
  "clear_chat_history_handler st =
     (st\<lparr>chat_history := []\<rparr>, [St_success ''Chat history cleared!'', St_rerun])"

section \<open>Example inputs\<close>

text \<open>
  A splitter that returns every document as a single chunk, a directory with a text file,
  a blank one, an unreadable one and a file of another kind, and a toy embedding: the
  vector of a text is its length, and two vectors are the more similar the closer they are.
\<close>

definition unsplit :: splitter where
  "unsplit docs = Inr docs"

definition sample_text :: string where
  "sample_text = ''AI is great. Search is a part of AI.''"

definition sample_entries :: "dir_entry list" where
  "sample_entries =
     [(''notes.txt'', Read_text sample_text),
      (''blank.txt'', Read_text ''  ''),
      (''locked.txt'', Read_raises (OSError ''Permission denied'')),
      (''paper.pdf'', Read_text ''%PDF'')]"

definition sample_document :: document where
  "sample_document = \<lparr>page_content = sample_text, source = ''notes.txt''\<rparr>"

definition length_embedding :: "nat embedder" where
  "length_embedding text = Inr (length text)"

definition embedding_unavailable :: "nat embedder" where
  "embedding_unavailable text = Inl (OtherException ''embedding service unavailable'')"

definition closeness :: "nat \<Rightarrow> nat \<Rightarrow> int" where
  "closeness q v = - \<bar>int q - int v\<bar>"

definition sample_store :: "nat chroma" where
  "sample_store =
     \<lparr>persisted_at = ''database'', embedding_function = length_embedding,
      records = [(\<lparr>page_content = ''ab'', source = ''a.txt''\<rparr>, 2),
                 (\<lparr>page_content = ''abcdef'', source = ''a.txt''\<rparr>, 6),
                 (\<lparr>page_content = ''abc'', source = ''b.txt''\<rparr>, 3)]\<rparr>"

text \<open>
  A generation side that answers with its prompt, one whose language model cannot be
  reached, an environment in which every service works and one whose embedding model
  raises on every text.
\<close>

definition echo_generation :: "(nat, int) generation" where
  "echo_generation =
     \<lparr>similarity = closeness,
      make_prompt = (\<lambda>docs question. concat (map page_content docs) @ question),
      language_model = (\<lambda>t prompt. Inr prompt)\<rparr>"

definition offline_generation :: "(nat, int) generation" where
  "offline_generation =
     \<lparr>similarity = closeness,
      make_prompt = (\<lambda>docs question. concat (map page_content docs) @ question),
      language_model = (\<lambda>t prompt. Inl (OtherException ''language model unavailable''))\<rparr>"

definition sample_environment :: "nat environment" where
  "sample_environment =
     \<lparr>mkdtemp = ''/tmp/tmpab12'', read_utf8 = Read_text, text_splitter = unsplit,
      sentence_transformer = (\<lambda>model_name cache_folder. Inr length_embedding)\<rparr>"

definition failing_environment :: "nat environment" where
  "failing_environment =
     \<lparr>mkdtemp = ''/tmp/tmpab12'', read_utf8 = Read_text, text_splitter = unsplit,
      sentence_transformer = (\<lambda>model_name cache_folder. Inr embedding_unavailable)\<rparr>"

definition sample_session :: "nat session_state" where
  "sample_session =
     \<lparr>rag_engine = Some (RAGEngine sample_store),
      chat_history = [\<lparr>role = ''user'', content = ''hello''\<rparr>,
                      \<lparr>role = ''assistant'', content = ''hi''\<rparr>],
      doc_stats = \<lparr>processed = 2, chunks = 3\<rparr>\<rparr>"

definition pdf_upload :: uploaded_file where
  "pdf_upload = \<lparr>name = ''paper.pdf'', getvalue = ''%PDF''\<rparr>"

definition notes_upload :: uploaded_file where
  "notes_upload = \<lparr>name = ''notes.txt'', getvalue = ''AI is great.''\<rparr>"

section \<open>Properties of the loader\<close>

lemma fst_process_file:
  "fst (process_file sd dir acc entry) = fst acc @ file_chunks sd entry"
  by (simp add: process_file_def file_chunks_def Let_def split: read_result.splits sum.splits)

lemma fst_foldl_process_file:
  "fst (foldl (process_file sd dir) acc entries) = fst acc @ concat (map (file_chunks sd) entries)"
  by (induction entries arbitrary: acc) (simp_all add: fst_process_file)

lemma fst_load_files:
  "fst (load_files sd dir entries) = concat (map (file_chunks sd) entries)"
  by (simp add: load_files_def fst_foldl_process_file)

lemma file_chunks_no_text:
  "yields_no_text entry \<Longrightarrow> file_chunks sd entry = []"
  by (auto simp: yields_no_text_def file_chunks_def split: read_result.splits)

lemma process_file_other_extension:
  "\<not> endswith (fst entry) ''.txt'' \<Longrightarrow> process_file sd dir acc entry = acc"
  by (simp add: process_file_def Let_def)

lemma load_files_other_extensions:
  "\<forall>entry \<in> set entries. \<not> endswith (fst entry) ''.txt'' \<Longrightarrow>
   foldl (process_file sd dir) acc entries = acc"
  by (induction entries arbitrary: acc) (simp_all add: process_file_other_extension)

text \<open>
  Claim C4. Loading fails with the no-valid-documents error exactly when the path is a
  directory that could be listed and the loop over its entries collected no chunk at all.
  That is the case in particular when every entry is not a text file by name, cannot be
  read, or is blank. A file that cannot be read is skipped and nothing else: the result
  is the one the directory gives without that file.
\<close>

theorem no_valid_documents_iff_zero_chunks:
  "(fst (load_and_split_documents sd dir fs) = Inl (ValueError no_valid_documents_msg)
      \<longleftrightarrow> (\<exists>entries. fs = Listdir entries \<and> fst (load_files sd dir entries) = []))
   \<and> ((\<forall>entry \<in> set entries. yields_no_text entry) \<longrightarrow>
        fst (load_and_split_documents sd dir (Listdir entries))
          = Inl (ValueError no_valid_documents_msg))
   \<and> fst (load_and_split_documents sd dir (Listdir (pre @ (fname, Read_raises e) # post)))
       = fst (load_and_split_documents sd dir (Listdir (pre @ post)))"
proof (intro conjI)
  show "fst (load_and_split_documents sd dir fs) = Inl (ValueError no_valid_documents_msg)
      \<longleftrightarrow> (\<exists>entries. fs = Listdir entries \<and> fst (load_files sd dir entries) = [])"
    by (cases fs)
       (simp_all add: load_and_split_documents_def load_failed_def Let_def
          no_valid_documents_msg_def)
next
  show "(\<forall>entry \<in> set entries. yields_no_text entry) \<longrightarrow>
        fst (load_and_split_documents sd dir (Listdir entries))
          = Inl (ValueError no_valid_documents_msg)"
    by (simp add: load_and_split_documents_def load_failed_def Let_def fst_load_files
          file_chunks_no_text)
next
  have "file_chunks sd (fname, Read_raises e) = []"
    by (simp add: file_chunks_def)
  then have "fst (load_files sd dir (pre @ (fname, Read_raises e) # post))
           = fst (load_files sd dir (pre @ post))"
    by (simp add: fst_load_files)
  then show "fst (load_and_split_documents sd dir (Listdir (pre @ (fname, Read_raises e) # post)))
       = fst (load_and_split_documents sd dir (Listdir (pre @ post)))"
    by (simp add: load_and_split_documents_def load_failed_def Let_def)
qed

theorem no_valid_documents_iff_zero_chunks_witness:
  "yields_no_text (''blank.txt'', Read_text ''  '')
   \<and> yields_no_text (''paper.pdf'', Read_text ''%PDF'')
   \<and> fst (load_and_split_documents unsplit ''data''
            (Listdir [(''blank.txt'', Read_text ''  ''), (''paper.pdf'', Read_text ''%PDF'')]))
       = Inl (ValueError no_valid_documents_msg)
   \<and> fst (load_files unsplit ''data''
            [(''blank.txt'', Read_text ''  ''), (''paper.pdf'', Read_text ''%PDF'')]) = []
   \<and> fst (load_and_split_documents unsplit ''data''
            (Listdir ([(''blank.txt'', Read_text ''  '')]
                      @ (''locked.txt'', Read_raises (OSError ''Permission denied''))
                      # [(''paper.pdf'', Read_text ''%PDF'')])))
       = Inl (ValueError no_valid_documents_msg)"
  using no_valid_documents_iff_zero_chunks
          [of unsplit "''data''"
              "Listdir [(''blank.txt'', Read_text ''  ''), (''paper.pdf'', Read_text ''%PDF'')]"
              "[(''blank.txt'', Read_text ''  ''), (''paper.pdf'', Read_text ''%PDF'')]"
              "[(''blank.txt'', Read_text ''  '')]" "''locked.txt''"
              "OSError ''Permission denied''" "[(''paper.pdf'', Read_text ''%PDF'')]"]
  by (auto simp add: yields_no_text_def endswith_def strip_def isspace_def)

text \<open>
  Claim C9. When no entry of an existing directory has a name ending in \<^verbatim>\<open>.txt\<close>,
  loading opens no file and writes no record for any entry: the only effect is the error
  record of the failed operation, and the error is the no-valid-documents one, not the
  directory-not-found one. An entry with another extension leaves the documents and the
  effects of the loop as they were, whatever the other entries are.
\<close>

theorem no_txt_files_no_valid_documents:
  "((\<forall>entry \<in> set entries. \<not> endswith (fst entry) ''.txt'') \<longrightarrow>
      load_and_split_documents sd dir (Listdir entries)
        = (Inl (ValueError no_valid_documents_msg),
           [Log_error (''Error in load_and_split_documents: '' @ no_valid_documents_msg)])
      \<and> fst (load_and_split_documents sd dir (Listdir entries))
          \<noteq> Inl (ValueError (''Directory not found: '' @ dir))
      \<and> filter is_open (snd (load_and_split_documents sd dir (Listdir entries))) = []
      \<and> filter is_warning (snd (load_and_split_documents sd dir (Listdir entries))) = [])
   \<and> (\<not> endswith (fst entry) ''.txt'' \<longrightarrow> process_file sd dir acc entry = acc)"
  by (simp add: load_and_split_documents_def load_failed_def Let_def load_files_def
        load_files_other_extensions process_file_other_extension no_valid_documents_msg_def)

theorem no_txt_files_no_valid_documents_witness:
  "\<not> endswith ''paper.pdf'' ''.txt'' \<and> \<not> endswith ''report.docx'' ''.txt''
   \<and> load_and_split_documents unsplit ''data''
        (Listdir [(''paper.pdf'', Read_text ''%PDF''), (''report.docx'', Read_text ''PK'')])
       = (Inl (ValueError no_valid_documents_msg),
          [Log_error (''Error in load_and_split_documents: '' @ no_valid_documents_msg)])
   \<and> process_file unsplit ''data'' ([], []) (''paper.pdf'', Read_text ''%PDF'') = ([], [])"
  using no_txt_files_no_valid_documents
          [of "[(''paper.pdf'', Read_text ''%PDF''), (''report.docx'', Read_text ''PK'')]"
              unsplit "''data''" "(''paper.pdf'', Read_text ''%PDF'')" "([], [])"]
  by (simp add: endswith_def)

section \<open>Properties of the store builder\<close>

lemma embed_documents_chunks:
  "embed_documents emb ds = Inr pairs \<Longrightarrow> map fst pairs = ds"
  by (induction ds arbitrary: pairs) (auto split: sum.splits)

lemma embed_documents_total:
  "\<forall>d \<in> set ds. \<exists>v. emb (page_content d) = Inr v \<Longrightarrow> \<exists>pairs. embed_documents emb ds = Inr pairs"
  by (induction ds) (auto split: sum.splits)

text \<open>
  Claim C5, as the code has it. An empty sequence fails with the error "No documents
  provided", which is logged. A non-empty sequence is handed whole to the store builder,
  with the embedding model and the persistence directory. When the builder succeeds, its
  handle is returned and the success is logged; the store behind the handle holds all given
  chunks, and the builder succeeds whenever every chunk can be embedded. When the builder
  raises, the exception is logged and raised again.
\<close>

theorem create_vector_store_contract:
  "create_vector_store fd self []
     = (Inl (ValueError no_documents_msg),
        [Log_info ''Creating vector store...'',
         Log_error (''Error creating vector store: '' @ no_documents_msg)])
   \<and> (documents \<noteq> [] \<longrightarrow>
        fd documents (embeddings self) (persist_directory self) = Inr vs \<longrightarrow>
        create_vector_store fd self documents
          = (Inr vs, [Log_info ''Creating vector store...'',
                      Log_info ''Vector store created successfully'']))
   \<and> (documents \<noteq> [] \<longrightarrow>
        fd documents (embeddings self) (persist_directory self) = Inl e \<longrightarrow>
        create_vector_store fd self documents
          = (Inl e, [Log_info ''Creating vector store...'',
                     Log_error (''Error creating vector store: '' @ str_exn e)]))
   \<and> (fst (create_vector_store Chroma_from_documents self documents) = Inr store \<longrightarrow>
        documents \<noteq> [] \<and> set documents \<subseteq> fst ` set (records store))
   \<and> (documents \<noteq> [] \<longrightarrow>
        (\<forall>d \<in> set documents. \<exists>v. embeddings self (page_content d) = Inr v) \<longrightarrow>
        (\<exists>store'. fst (create_vector_store Chroma_from_documents self documents) = Inr store'))"
proof (intro conjI impI)
  show "create_vector_store fd self []
     = (Inl (ValueError no_documents_msg),
        [Log_info ''Creating vector store...'',
         Log_error (''Error creating vector store: '' @ no_documents_msg)])"
    by (simp add: create_vector_store_def Let_def)
next
  assume "documents \<noteq> []" "fd documents (embeddings self) (persist_directory self) = Inr vs"
  then show "create_vector_store fd self documents
          = (Inr vs, [Log_info ''Creating vector store...'',
                      Log_info ''Vector store created successfully''])"
    by (simp add: create_vector_store_def Let_def)
next
  assume "documents \<noteq> []" "fd documents (embeddings self) (persist_directory self) = Inl e"
  then show "create_vector_store fd self documents
          = (Inl e, [Log_info ''Creating vector store...'',
                     Log_error (''Error creating vector store: '' @ str_exn e)])"
    by (simp add: create_vector_store_def Let_def)
next
  assume a: "fst (create_vector_store Chroma_from_documents self documents) = Inr store"
  then show ne: "documents \<noteq> []"
    by (auto simp: create_vector_store_def Let_def)
  from a ne
  have "Chroma_from_documents documents (embeddings self) (persist_directory self) = Inr store"
    by (simp add: create_vector_store_def Let_def split: sum.splits)
  then have "map fst (records store) = documents"
    by (auto simp: Chroma_from_documents_def split: sum.splits dest: embed_documents_chunks)
  then have "set documents = fst ` set (records store)"
    by (metis set_map)
  then show "set documents \<subseteq> fst ` set (records store)"
    by simp
next
  assume ne: "documents \<noteq> []"
    and ok: "\<forall>d \<in> set documents. \<exists>v. embeddings self (page_content d) = Inr v"
  from embed_documents_total[OF ok] obtain pairs
    where "embed_documents (embeddings self) documents = Inr pairs" by blast
  with ne show "\<exists>store'. fst (create_vector_store Chroma_from_documents self documents) = Inr store'"
    by (simp add: create_vector_store_def Chroma_from_documents_def Let_def)
qed

theorem create_vector_store_contract_witness:
  "[sample_document] \<noteq> []
   \<and> length_embedding (page_content sample_document) = Inr 36
   \<and> create_vector_store Chroma_from_documents
       \<lparr>persist_directory = ''database'', embeddings = length_embedding\<rparr> [sample_document]
       = (Inr \<lparr>persisted_at = ''database'', embedding_function = length_embedding,
               records = [(sample_document, 36)]\<rparr>,
          [Log_info ''Creating vector store...'',
           Log_info ''Vector store created successfully''])
   \<and> set [sample_document]
         \<subseteq> fst ` set (records \<lparr>persisted_at = ''database'',
                                  embedding_function = length_embedding,
                                  records = [(sample_document, 36)]\<rparr>)
   \<and> (\<exists>store'. fst (create_vector_store Chroma_from_documents
                     \<lparr>persist_directory = ''database'', embeddings = length_embedding\<rparr>
                     [sample_document]) = Inr store')
   \<and> create_vector_store Chroma_from_documents
       \<lparr>persist_directory = ''database'', embeddings = embedding_unavailable\<rparr> [sample_document]
       = (Inl (OtherException ''embedding service unavailable''),
          [Log_info ''Creating vector store...'',
           Log_error ''Error creating vector store: embedding service unavailable''])"
proof -
  let ?ok = "\<lparr>persist_directory = ''database'', embeddings = length_embedding\<rparr>"
  let ?down = "\<lparr>persist_directory = ''database'', embeddings = embedding_unavailable\<rparr>"
  let ?store = "\<lparr>persisted_at = ''database'', embedding_function = length_embedding,
                 records = [(sample_document, 36)]\<rparr>"
  have ne: "[sample_document] \<noteq> []"
    by simp
  have emb: "length_embedding (page_content sample_document) = Inr 36"
    by (simp add: length_embedding_def sample_document_def sample_text_def)
  have built: "Chroma_from_documents [sample_document] (embeddings ?ok) (persist_directory ?ok)
                 = Inr ?store"
    using emb by (simp add: Chroma_from_documents_def)
  have raised: "Chroma_from_documents [sample_document] (embeddings ?down)
                  (persist_directory ?down)
                 = Inl (OtherException ''embedding service unavailable'')"
    by (simp add: Chroma_from_documents_def embedding_unavailable_def)
  have success: "create_vector_store Chroma_from_documents ?ok [sample_document]
       = (Inr ?store, [Log_info ''Creating vector store...'',
                       Log_info ''Vector store created successfully''])"
    using create_vector_store_contract
            [where fd = Chroma_from_documents and self = ?ok
               and documents = "[sample_document]" and vs = ?store,
             THEN conjunct2, THEN conjunct1]
          ne built
    by blast
  have failure: "create_vector_store Chroma_from_documents ?down [sample_document]
       = (Inl (OtherException ''embedding service unavailable''),
          [Log_info ''Creating vector store...'',
           Log_error ''Error creating vector store: embedding service unavailable''])"
    using create_vector_store_contract
            [where fd = Chroma_from_documents and self = ?down
               and documents = "[sample_document]"
               and e = "OtherException ''embedding service unavailable''",
             THEN conjunct2, THEN conjunct2, THEN conjunct1]
          ne raised
    by simp
  have holds: "set [sample_document] \<subseteq> fst ` set (records ?store)"
    using create_vector_store_contract
            [where self = ?ok and documents = "[sample_document]" and store = ?store,
             THEN conjunct2, THEN conjunct2, THEN conjunct2, THEN conjunct1]
          success
    by simp
  have every: "\<forall>d \<in> set [sample_document]. \<exists>v. embeddings ?ok (page_content d) = Inr v"
    using emb by simp
  have returned: "\<exists>store'. fst (create_vector_store Chroma_from_documents ?ok [sample_document])
                    = Inr store'"
    using create_vector_store_contract
            [where self = ?ok and documents = "[sample_document]",
             THEN conjunct2, THEN conjunct2, THEN conjunct2, THEN conjunct2]
          ne every
    by blast
  from ne emb success failure holds returned show ?thesis
    by blast
qed

text \<open>
  Claim C5 as stated fails: with a non-empty sequence of one chunk and an embedding model
  that raises, no handle is returned; the exception of the builder is logged and reaches
  the caller.
\<close>

theorem create_vector_store_embedding_failure:
  "[sample_document] \<noteq> []
   \<and> create_vector_store Chroma_from_documents
       \<lparr>persist_directory = ''database'', embeddings = embedding_unavailable\<rparr>
       [sample_document]
       = (Inl (OtherException ''embedding service unavailable''),
          [Log_info ''Creating vector store...'',
           Log_error ''Error creating vector store: embedding service unavailable''])"
  by (simp add: create_vector_store_def Chroma_from_documents_def embedding_unavailable_def Let_def)

section \<open>Properties of the query\<close>

lemma length_insert_hit: "length (insert_hit h gs) = Suc (length gs)"
  by (induction gs) simp_all

lemma length_rank: "length (rank hs) = length hs"
  by (induction hs) (simp_all add: length_insert_hit)

lemma mset_insert_hit: "mset (insert_hit h gs) = add_mset h (mset gs)"
  by (induction gs) simp_all

lemma mset_rank: "mset (rank hs) = mset hs"
  by (induction hs) (simp_all add: mset_insert_hit)

lemma set_insert_hit: "set (insert_hit h gs) = insert h (set gs)"
  by (induction gs) auto

lemma sorted_insert_hit:
  "sorted_wrt (\<lambda>a b. snd b \<le> snd a) gs \<Longrightarrow> sorted_wrt (\<lambda>a b. snd b \<le> snd a) (insert_hit h gs)"
  by (induction gs) (auto simp: set_insert_hit)

lemma sorted_rank: "sorted_wrt (\<lambda>a b. snd b \<le> snd a) (rank hs)"
  by (induction hs) (simp_all add: sorted_insert_hit)

text \<open>
  Claim C6. When the query text embeds to the vector \<open>q\<close>, the query returns
  \<open>min k n\<close> results for a store of \<open>n\<close> chunks. They are the head of a ranking of all
  stored chunks by decreasing similarity to \<open>q\<close>: nothing left out is more similar than
  anything returned. The query leaves the store as it was, and the same query against the
  store it leaves returns the same results in the same order.
\<close>

theorem query_top_k_ranked:
  assumes "embedding_function store text = Inr q"
  shows "\<exists>hits rest.
      fst (query sim store text k) = Inr hits
    \<and> length hits = min k (length (records store))
    \<and> sorted_wrt (\<lambda>a b. snd b \<le> snd a) (hits @ rest)
    \<and> mset (hits @ rest) = mset (map (\<lambda>(d, v). (d, sim q v)) (records store))
    \<and> snd (query sim store text k) = store
    \<and> fst (query sim (snd (query sim store text k)) text k) = Inr hits"
proof -
  define scored where "scored = map (\<lambda>(d, v). (d, sim q v)) (records store)"
  define hits where "hits = take k (rank scored)"
  define rest where "rest = drop k (rank scored)"
  have q: "query sim store text k = (Inr hits, store)"
    using assms by (simp add: query_def query_vector_def hits_def scored_def)
  have "length hits = min k (length (records store))"
    by (simp add: hits_def length_rank scored_def min.commute)
  moreover have "hits @ rest = rank scored"
    by (simp add: hits_def rest_def)
  then have "sorted_wrt (\<lambda>a b. snd b \<le> snd a) (hits @ rest)" "mset (hits @ rest) = mset scored"
    by (simp_all add: sorted_rank mset_rank)
  ultimately show ?thesis
    using q unfolding scored_def by (intro exI[of _ hits] exI[of _ rest]) simp
qed

theorem query_top_k_ranked_witness:
  "embedding_function sample_store ''abcd'' = Inr 4
   \<and> (\<exists>hits rest.
        fst (query closeness sample_store ''abcd'' 2) = Inr hits
      \<and> length hits = 2
      \<and> sorted_wrt (\<lambda>a b. snd b \<le> snd a) (hits @ rest)
      \<and> snd (query closeness sample_store ''abcd'' 2) = sample_store)"
proof -
  have e: "embedding_function sample_store ''abcd'' = Inr 4"
    by (simp add: sample_store_def length_embedding_def)
  have n: "length (records sample_store) = 3"
    by (simp add: sample_store_def)
  from query_top_k_ranked [OF e, of closeness 2] n e show ?thesis
    by auto
qed

section \<open>Properties of the shell\<close>

text \<open>
  Claim C7. A failure of loading or of indexing makes \<^verbatim>\<open>process_files\<close> fail, and
  the handler of "Process Documents" then shows the error and returns the session state it
  was given. A failure of the language model call makes \<^verbatim>\<open>answer_question\<close> fail,
  and the block of the assistant then shows the error and returns the session state as it
  was when the call was made: the engine, the statistics and the chat history, whose last
  entry is the question that the handler appended before the call. Every handler returns;
  no exception leaves it.
\<close>

theorem failed_operation_keeps_session:
  "(uploaded_files \<noteq> [] \<longrightarrow> fst (process_files env uploaded_files st) = Inl e \<longrightarrow>
      process_documents_handler env uploaded_files st
        = (st, [Status_update ''Error occurred!'' ''error'',
                St_error (''Error processing documents: '' @ str_exn e)]))
   \<and> (EmbeddingsManager (sentence_transformer env) ''database'' = Inr mgr \<longrightarrow>
        fst (load_and_split_documents (text_splitter env) (os_path_join (mkdtemp env) ''data'')
               (Listdir (save_uploads (read_utf8 env) uploaded_files))) = Inl e \<longrightarrow>
        fst (process_files env uploaded_files st) = Inl e)
   \<and> (EmbeddingsManager (sentence_transformer env) ''database'' = Inr mgr \<longrightarrow>
        fst (load_and_split_documents (text_splitter env) (os_path_join (mkdtemp env) ''data'')
               (Listdir (save_uploads (read_utf8 env) uploaded_files))) = Inr documents \<longrightarrow>
        fst (create_vector_store Chroma_from_documents mgr documents) = Inl e \<longrightarrow>
        fst (process_files env uploaded_files st) = Inl e)
   \<and> (vector_store eng = Some store \<longrightarrow> records store \<noteq> [] \<longrightarrow>
        fst (query (similarity gen) store prompt (context_length eng)) = Inr hits \<longrightarrow>
        language_model gen (temperature eng) (make_prompt gen (map fst hits) prompt) = Inl e \<longrightarrow>
        answer_question gen eng prompt = Inl e)
   \<and> (answer_question gen eng prompt = Inl e \<longrightarrow>
        assistant_reply gen eng prompt st = (st, [St_error (''Error: '' @ str_exn e)]))
   \<and> (rag_engine st = Some eng \<longrightarrow> prompt \<noteq> [] \<longrightarrow> answer_question gen eng prompt = Inl e \<longrightarrow>
        chat_input_handler gen (Some prompt) st
          = (st\<lparr>chat_history := chat_history st @ [\<lparr>role = ''user'', content = prompt\<rparr>]\<rparr>,
             [Chat_message ''user'' prompt, St_error (''Error: '' @ str_exn e)]))"
proof (intro conjI impI)
  assume "uploaded_files \<noteq> []" "fst (process_files env uploaded_files st) = Inl e"
  then show "process_documents_handler env uploaded_files st
        = (st, [Status_update ''Error occurred!'' ''error'',
                St_error (''Error processing documents: '' @ str_exn e)])"
    by (simp add: process_documents_handler_def)
next
  assume "EmbeddingsManager (sentence_transformer env) ''database'' = Inr mgr"
    "fst (load_and_split_documents (text_splitter env) (os_path_join (mkdtemp env) ''data'')
               (Listdir (save_uploads (read_utf8 env) uploaded_files))) = Inl e"
  then show "fst (process_files env uploaded_files st) = Inl e"
    by (simp add: process_files_def Let_def)
next
  assume "EmbeddingsManager (sentence_transformer env) ''database'' = Inr mgr"
    "fst (load_and_split_documents (text_splitter env) (os_path_join (mkdtemp env) ''data'')
               (Listdir (save_uploads (read_utf8 env) uploaded_files))) = Inr documents"
    "fst (create_vector_store Chroma_from_documents mgr documents) = Inl e"
  then show "fst (process_files env uploaded_files st) = Inl e"
    by (simp add: process_files_def Let_def)
next
  assume "vector_store eng = Some store" "records store \<noteq> []"
    "fst (query (similarity gen) store prompt (context_length eng)) = Inr hits"
    "language_model gen (temperature eng) (make_prompt gen (map fst hits) prompt) = Inl e"
  then show "answer_question gen eng prompt = Inl e"
    by (simp add: answer_question_def)
next
  assume "answer_question gen eng prompt = Inl e"
  then show "assistant_reply gen eng prompt st = (st, [St_error (''Error: '' @ str_exn e)])"
    by (simp add: assistant_reply_def)
next
  assume "rag_engine st = Some eng" "prompt \<noteq> []" "answer_question gen eng prompt = Inl e"
  then show "chat_input_handler gen (Some prompt) st
          = (st\<lparr>chat_history := chat_history st @ [\<lparr>role = ''user'', content = prompt\<rparr>]\<rparr>,
             [Chat_message ''user'' prompt, St_error (''Error: '' @ str_exn e)])"
    by (simp add: chat_input_handler_def assistant_reply_def Let_def)
qed

lemma process_files_rejects_pdf:
  "fst (process_files sample_environment [pdf_upload] sample_session)
        = Inl (ValueError no_valid_documents_msg)"
  by (simp add: process_files_def Let_def sample_environment_def EmbeddingsManager_def
        save_uploads_def pdf_upload_def load_and_split_documents_def load_files_def process_file_def
        endswith_def load_failed_def)

lemma process_files_embedding_unavailable:
  "fst (process_files failing_environment [notes_upload] sample_session)
        = Inl (OtherException ''embedding service unavailable'')"
  by (simp add: process_files_def Let_def failing_environment_def EmbeddingsManager_def
        save_uploads_def notes_upload_def load_and_split_documents_def load_files_def process_file_def
        endswith_def load_failed_def strip_def isspace_def unsplit_def
        create_vector_store_def Chroma_from_documents_def embedding_unavailable_def)

lemma answer_question_offline:
  "answer_question offline_generation (RAGEngine sample_store) ''abcd''
        = Inl (OtherException ''language model unavailable'')"
  by (simp add: answer_question_def RAGEngine_def sample_store_def query_def
        length_embedding_def offline_generation_def)

theorem failed_operation_keeps_session_witness:
  "fst (process_files sample_environment [pdf_upload] sample_session)
     = Inl (ValueError no_valid_documents_msg)
   \<and> process_documents_handler sample_environment [pdf_upload] sample_session
       = (sample_session, [Status_update ''Error occurred!'' ''error'',
            St_error (''Error processing documents: '' @ no_valid_documents_msg)])
   \<and> fst (process_files failing_environment [notes_upload] sample_session)
       = Inl (OtherException ''embedding service unavailable'')
   \<and> process_documents_handler failing_environment [notes_upload] sample_session
       = (sample_session, [Status_update ''Error occurred!'' ''error'',
            St_error ''Error processing documents: embedding service unavailable''])
   \<and> answer_question offline_generation (RAGEngine sample_store) ''abcd''
       = Inl (OtherException ''language model unavailable'')
   \<and> assistant_reply offline_generation (RAGEngine sample_store) ''abcd'' sample_session
       = (sample_session, [St_error ''Error: language model unavailable''])
   \<and> chat_input_handler offline_generation (Some ''abcd'') sample_session
       = (sample_session\<lparr>chat_history :=
            chat_history sample_session @ [\<lparr>role = ''user'', content = ''abcd''\<rparr>]\<rparr>,
          [Chat_message ''user'' ''abcd'', St_error ''Error: language model unavailable''])"
proof -
  have eng: "rag_engine sample_session = Some (RAGEngine sample_store)"
    by (simp add: sample_session_def)
  have a: "process_documents_handler sample_environment [pdf_upload] sample_session
       = (sample_session, [Status_update ''Error occurred!'' ''error'',
            St_error (''Error processing documents: '' @ no_valid_documents_msg)])"
    using failed_operation_keeps_session
            [where env = sample_environment and uploaded_files = "[pdf_upload]"
               and st = sample_session and e = "ValueError no_valid_documents_msg",
             THEN conjunct1]
          process_files_rejects_pdf
    by (simp add: pdf_upload_def)
  have b: "process_documents_handler failing_environment [notes_upload] sample_session
       = (sample_session, [Status_update ''Error occurred!'' ''error'',
            St_error ''Error processing documents: embedding service unavailable''])"
    using failed_operation_keeps_session
            [where env = failing_environment and uploaded_files = "[notes_upload]"
               and st = sample_session
               and e = "OtherException ''embedding service unavailable''",
             THEN conjunct1]
          process_files_embedding_unavailable
    by (simp add: notes_upload_def)
  have c: "assistant_reply offline_generation (RAGEngine sample_store) ''abcd'' sample_session
       = (sample_session, [St_error ''Error: language model unavailable''])"
    and d: "chat_input_handler offline_generation (Some ''abcd'') sample_session
       = (sample_session\<lparr>chat_history :=
            chat_history sample_session @ [\<lparr>role = ''user'', content = ''abcd''\<rparr>]\<rparr>,
          [Chat_message ''user'' ''abcd'', St_error ''Error: language model unavailable''])"
    using failed_operation_keeps_session
            [where gen = offline_generation and eng = "RAGEngine sample_store"
               and prompt = "''abcd''" and st = sample_session
               and e = "OtherException ''language model unavailable''",
             THEN conjunct2, THEN conjunct2, THEN conjunct2, THEN conjunct2]
          answer_question_offline eng
    by simp_all
  from a b c d process_files_rejects_pdf process_files_embedding_unavailable
    answer_question_offline
  show ?thesis
    by simp
qed

text \<open>
  Claim C8. Saving the settings replaces the temperature and the context length of the
  engine and nothing else: the vector store of the engine, the chat history and the
  document statistics stay as they were, and without an engine nothing happens at all.
  The next question is answered with the new values: the language model is called with the
  new temperature, on a prompt built from the first \<open>k\<close> chunks of the ranking of the
  whole store, which does not depend on \<open>k\<close>; the query leaves the store as it was.
\<close>

theorem save_settings_next_query_only:
  "(rag_engine st = None \<longrightarrow> save_settings_handler t k st = (st, []))
   \<and> (rag_engine st = Some eng \<longrightarrow>
        fst (save_settings_handler t k st) = st\<lparr>rag_engine := Some (update_settings eng t k)\<rparr>
      \<and> chat_history (fst (save_settings_handler t k st)) = chat_history st
      \<and> doc_stats (fst (save_settings_handler t k st)) = doc_stats st)
   \<and> vector_store (update_settings eng t k) = vector_store eng
   \<and> temperature (update_settings eng t k) = t
   \<and> context_length (update_settings eng t k) = k
   \<and> (vector_store eng = Some store \<longrightarrow> records store \<noteq> [] \<longrightarrow>
        embedding_function store question = Inr q \<longrightarrow>
          answer_question gen (update_settings eng t k) question
            = language_model gen t
                (make_prompt gen (map fst (query_vector (similarity gen) store q k)) question)
        \<and> length (query_vector (similarity gen) store q k) = min k (length (records store))
        \<and> query_vector (similarity gen) store q k
            = take k (query_vector (similarity gen) store q (length (records store)))
        \<and> snd (query (similarity gen) store question k) = store)"
proof (intro conjI impI)
  assume "rag_engine st = None"
  then show "save_settings_handler t k st = (st, [])"
    by (simp add: save_settings_handler_def)
next
  assume a: "rag_engine st = Some eng"
  then show "fst (save_settings_handler t k st) = st\<lparr>rag_engine := Some (update_settings eng t k)\<rparr>"
    "chat_history (fst (save_settings_handler t k st)) = chat_history st"
    "doc_stats (fst (save_settings_handler t k st)) = doc_stats st"
    by (simp_all add: save_settings_handler_def)
next
  show "vector_store (update_settings eng t k) = vector_store eng"
    "temperature (update_settings eng t k) = t"
    "context_length (update_settings eng t k) = k"
    by (simp_all add: update_settings_def)
next
  assume a: "vector_store eng = Some store" "records store \<noteq> []"
    "embedding_function store question = Inr q"
  then show "answer_question gen (update_settings eng t k) question
            = language_model gen t
                (make_prompt gen (map fst (query_vector (similarity gen) store q k)) question)"
    by (simp add: answer_question_def update_settings_def query_def)
  show "length (query_vector (similarity gen) store q k) = min k (length (records store))"
    by (simp add: query_vector_def length_rank min.commute)
  show "query_vector (similarity gen) store q k
            = take k (query_vector (similarity gen) store q (length (records store)))"
    by (simp add: query_vector_def length_rank)
  from a show "snd (query (similarity gen) store question k) = store"
    by (simp add: query_def)
qed

theorem save_settings_next_query_only_witness:
  "rag_engine sample_session = Some (RAGEngine sample_store)
   \<and> chat_history (fst (save_settings_handler (1 / 5) 1 sample_session))
       = chat_history sample_session
   \<and> doc_stats (fst (save_settings_handler (1 / 5) 1 sample_session)) = doc_stats sample_session
   \<and> embedding_function sample_store ''abcd'' = Inr 4
   \<and> answer_question echo_generation (update_settings (RAGEngine sample_store) (1 / 5) 1) ''abcd''
       = Inr ''abcabcd''
   \<and> length (query_vector closeness sample_store 4 1) = 1"
proof -
  have eng: "rag_engine sample_session = Some (RAGEngine sample_store)"
    by (simp add: sample_session_def)
  have store: "vector_store (RAGEngine sample_store) = Some sample_store"
    "records sample_store \<noteq> []" "length (records sample_store) = 3"
    "embedding_function sample_store ''abcd'' = Inr 4"
    by (simp_all add: RAGEngine_def sample_store_def length_embedding_def)
  note frame = save_settings_next_query_only
      [where st = sample_session and eng = "RAGEngine sample_store" and t = "1 / 5" and k = 1
         and store = sample_store and question = "''abcd''" and q = 4
         and gen = echo_generation]
  have answer: "answer_question echo_generation
                  (update_settings (RAGEngine sample_store) (1 / 5) 1) ''abcd''
       = language_model echo_generation (1 / 5)
           (make_prompt echo_generation
              (map fst (query_vector (similarity echo_generation) sample_store 4 1)) ''abcd'')"
    using frame store by simp
  have ranked: "query_vector closeness sample_store 4 1
          = [(\<lparr>page_content = ''abc'', source = ''b.txt''\<rparr>, - 1)]"
    by (simp add: query_vector_def sample_store_def closeness_def)
  with answer have "answer_question echo_generation
                  (update_settings (RAGEngine sample_store) (1 / 5) 1) ''abcd'' = Inr ''abcabcd''"
    by (simp add: echo_generation_def)
  moreover have "length (query_vector closeness sample_store 4 1) = 1"
    using ranked by simp
  moreover have "chat_history (fst (save_settings_handler (1 / 5) 1 sample_session))
       = chat_history sample_session"
    "doc_stats (fst (save_settings_handler (1 / 5) 1 sample_session)) = doc_stats sample_session"
    using frame eng by simp_all
  ultimately show ?thesis
    using eng store by simp
qed

text \<open>
  Claim C10. Clearing the chat history sets the chat history to the empty list and changes
  nothing else: the engine, and with it the vector store, and the document statistics are
  the ones of the state before.
\<close>

theorem clear_chat_history_frame:
  "fst (clear_chat_history_handler st) = st\<lparr>chat_history := []\<rparr>
   \<and> chat_history (fst (clear_chat_history_handler st)) = []
   \<and> rag_engine (fst (clear_chat_history_handler st)) = rag_engine st
   \<and> doc_stats (fst (clear_chat_history_handler st)) = doc_stats st"
  by (simp add: clear_chat_history_handler_def)

end
